theory Spec2Isabelle
  imports Complex_Main
begin

section \<open>JavaScript numbers\<close>

text \<open>
  A JavaScript Number is an IEEE 754 double. A finite double is modelled by the rational
  it denotes, and the three special values \<open>NaN\<close>, \<open>+Infinity\<close> and \<open>-Infinity\<close> are
  constructors of their own. Every arithmetic operation computes the exact result and
  rounds it to the nearest double, a tie going to the even significand, as the hardware
  does; a decimal literal of the source is the double nearest to it. The sign of zero is
  the one thing not modelled.
\<close>

datatype jsnum = Num rat | PosInf | NegInf | NaN

text \<open>The position of the leading bit of a positive integer.\<close>

function ilog2 :: "int \<Rightarrow> int" where
  "ilog2 n = (if n \<le> 1 then 0 else 1 + ilog2 (n div 2))"
  by pat_completeness auto
termination
  by (relation "measure nat") auto

declare ilog2.simps [simp del]

text \<open>The binary exponent of a positive rational \<open>x\<close>: the \<open>e\<close> with \<open>2^e \<le> x < 2^(e+1)\<close>.\<close>

definition flog2 :: "rat \<Rightarrow> int" where
  "flog2 x = (case quotient_of x of (p, q) \<Rightarrow>
               (let d = ilog2 p - ilog2 q
                in if 2 powi d \<le> x then d else d - 1))"

definition round_half_even :: "rat \<Rightarrow> int" where
  "round_half_even r =
     (let f = \<lfloor>r\<rfloor>; d = r - of_int f
      in if d < 1 / 2 then f else if 1 / 2 < d then f + 1 else if even f then f else f + 1)"

definition inf_signed :: "bool \<Rightarrow> jsnum" where
  "inf_signed positive = (if positive then PosInf else NegInf)"

text \<open>
  Rounding to a double: the significand has 53 bits, the exponent of a normal number runs
  from -1022 to 1023, below it the spacing stays at \<open>2^(-1074)\<close>, and a result that rounds
  to \<open>2^1024\<close> or beyond is infinite.
\<close>

definition fl :: "rat \<Rightarrow> jsnum" where
  "fl x =
     (if x = 0 then Num 0
      else let e = max (flog2 \<bar>x\<bar>) (- 1022); q = 2 powi (e - 52);
               m = round_half_even (x / q)
           in if 1023 < e \<or> (e = 1023 \<and> 2 ^ 53 \<le> \<bar>m\<bar>)
              then inf_signed (0 < x) else Num (of_int m * q))"

fun js_neg :: "jsnum \<Rightarrow> jsnum" where
  "js_neg (Num a) = Num (- a)"
| "js_neg PosInf = NegInf"
| "js_neg NegInf = PosInf"
| "js_neg NaN = NaN"

fun js_add :: "jsnum \<Rightarrow> jsnum \<Rightarrow> jsnum" where
  "js_add NaN _ = NaN"
| "js_add _ NaN = NaN"
| "js_add (Num a) (Num b) = fl (a + b)"
| "js_add PosInf NegInf = NaN"
| "js_add NegInf PosInf = NaN"
| "js_add PosInf _ = PosInf"
| "js_add NegInf _ = NegInf"
| "js_add (Num a) PosInf = PosInf"
| "js_add (Num a) NegInf = NegInf"

definition js_sub :: "jsnum \<Rightarrow> jsnum \<Rightarrow> jsnum" where
  "js_sub x y = js_add x (js_neg y)"

fun js_mul :: "jsnum \<Rightarrow> jsnum \<Rightarrow> jsnum" where
  "js_mul NaN _ = NaN"
| "js_mul _ NaN = NaN"
| "js_mul (Num a) (Num b) = fl (a * b)"
| "js_mul PosInf PosInf = PosInf"
| "js_mul NegInf NegInf = PosInf"
| "js_mul PosInf NegInf = NegInf"
| "js_mul NegInf PosInf = NegInf"
| "js_mul PosInf (Num b) = (if b = 0 then NaN else inf_signed (0 < b))"
| "js_mul NegInf (Num b) = (if b = 0 then NaN else inf_signed (b < 0))"
| "js_mul (Num a) PosInf = (if a = 0 then NaN else inf_signed (0 < a))"
| "js_mul (Num a) NegInf = (if a = 0 then NaN else inf_signed (a < 0))"

fun js_div :: "jsnum \<Rightarrow> jsnum \<Rightarrow> jsnum" where
  "js_div NaN _ = NaN"
| "js_div _ NaN = NaN"
| "js_div (Num a) (Num b) =
     (if b = 0 then (if a = 0 then NaN else inf_signed (0 < a)) else fl (a / b))"
| "js_div (Num a) PosInf = Num 0"
| "js_div (Num a) NegInf = Num 0"
| "js_div PosInf (Num b) = inf_signed (0 \<le> b)"
| "js_div NegInf (Num b) = inf_signed (b < 0)"
| "js_div PosInf _ = NaN"
| "js_div NegInf _ = NaN"

text \<open>\<open>x < y\<close> and \<open>x > y\<close> on Numbers: every comparison with \<open>NaN\<close> is false.\<close>

fun js_lt :: "jsnum \<Rightarrow> jsnum \<Rightarrow> bool" where
  "js_lt NaN _ = False"
| "js_lt _ NaN = False"
| "js_lt (Num a) (Num b) = (a < b)"
| "js_lt NegInf NegInf = False"
| "js_lt NegInf _ = True"
| "js_lt _ NegInf = False"
| "js_lt PosInf _ = False"
| "js_lt (Num a) PosInf = True"

definition js_gt :: "jsnum \<Rightarrow> jsnum \<Rightarrow> bool" where
  "js_gt x y = js_lt y x"

text \<open>\<open>Math.min(x, y)\<close>: \<open>NaN\<close> when either argument is \<open>NaN\<close>.\<close>

definition Math_min :: "jsnum \<Rightarrow> jsnum \<Rightarrow> jsnum" where
  "Math_min x y = (if x = NaN \<or> y = NaN then NaN else if js_lt y x then y else x)"

text \<open>
  \<open>Math.round(x)\<close>: the nearest integer, a tie going up; the special values unchanged.
  The result is exact: it is an integer no larger in magnitude than a double can hold.
\<close>

fun Math_round :: "jsnum \<Rightarrow> jsnum" where
  "Math_round (Num a) = Num (of_int \<lfloor>a + 1 / 2\<rfloor>)"
| "Math_round x = x"

text \<open>
  \<open>x || d\<close> on a Number field that may be missing (\<open>None\<close> is \<open>undefined\<close>): the
  falsy values \<open>undefined\<close>, \<open>0\<close> and \<open>NaN\<close> give \<open>d\<close>.
\<close>

fun js_or :: "jsnum option \<Rightarrow> jsnum \<Rightarrow> jsnum" where
  "js_or None d = d"
| "js_or (Some NaN) d = d"
| "js_or (Some (Num a)) d = (if a = 0 then d else Num a)"
| "js_or (Some x) d = x"

text \<open>The numeric value of a field read in an arithmetic expression: \<open>undefined\<close> is \<open>NaN\<close>.\<close>

fun toNumber :: "jsnum option \<Rightarrow> jsnum" where
  "toNumber None = NaN"
| "toNumber (Some x) = x"

section \<open>User: the trust score\<close>

text \<open>The \<open>reputation\<close> block of the user schema; all four fields are Numbers, default 0.\<close>

record reputation =
  totalReviews :: jsnum
  averageRating :: jsnum
  completedServices :: jsnum
  cancelledServices :: jsnum

text \<open>\<open>userSchema.methods.calculateTrustScore\<close>.\<close>

definition calculateTrustScore :: "reputation \<Rightarrow> jsnum" where
  "calculateTrustScore r =
     (if totalReviews r = Num 0 then Num 0
      else
        let score = js_mul (js_div (averageRating r) (Num 5)) (Num 100);
            completionRate =
              js_div (completedServices r)
                (js_add (completedServices r) (cancelledServices r));
            score = js_mul score completionRate;
            reviewBonus = js_mul (Math_min (js_div (totalReviews r) (Num 50)) (Num 1)) (Num 10);
            score = js_add score reviewBonus
        in Math_min (Math_round score) (Num 100))"

section \<open>Thrown values, responses and the central error handler\<close>

text \<open>
  Document identifiers are ObjectIds; the code compares them through \<open>toString()\<close>, which is
  injective, so an identifier is modelled by its string. A \<open>Date\<close> that the schema requires
  is its time value in milliseconds.
\<close>

type_synonym objectId = string
type_synonym date = int

text \<open>
  The values the modelled code can throw: a \<open>TypeError\<close> of the engine with its message,
  the duplicate-key error (code 11000) of a unique index, with the field and the value,
  and the \<open>ValidationError\<close> with which \<open>save()\<close> rejects a document that fails the
  validators of its schema.
\<close>

datatype js_exn = TypeError string | DuplicateKey string string | ValidationError

text \<open>A template literal interpolating a Number keeps the Number as it is.\<close>

datatype piece = Lit string | Number jsnum

record response =
  statusCode :: nat
  message :: "piece list"
  errorType :: "string option"

definition reject :: "nat \<Rightarrow> string \<Rightarrow> response" where
  "reject code msg = \<lparr>statusCode = code, message = [Lit msg], errorType = None\<rparr>"

definition toUpperCase_char :: "char \<Rightarrow> char" where
  "toUpperCase_char c =
     (let n = (of_char c :: nat) in if 97 \<le> n \<and> n \<le> 122 then char_of (n - 32) else c)"

fun capitalize :: "string \<Rightarrow> string" where
  "capitalize [] = []"
| "capitalize (c # cs) = toUpperCase_char c # cs"

text \<open>
  \<open>errorHandler\<close>, for the thrown values above: a duplicate key is a 400
  \<open>DuplicateError\<close>, a failed validation a 400 \<open>ValidationError\<close>, anything unknown a 500
  \<open>ServerError\<close> carrying the thrown message.
\<close>

fun errorHandler :: "js_exn \<Rightarrow> response" where
  "errorHandler (DuplicateKey field v) =
     \<lparr>statusCode = 400,
      message = [Lit (capitalize field @ '' '' @ [CHR 0x27] @ v @ [CHR 0x27] @ '' already exists'')],
      errorType = Some ''DuplicateError''\<rparr>"
| "errorHandler ValidationError =
     \<lparr>statusCode = 400, message = [Lit ''Validation Error''],
      errorType = Some ''ValidationError''\<rparr>"
| "errorHandler (TypeError msg) =
     \<lparr>statusCode = 500,
      message = [Lit (if msg = [] then ''Internal Server Error'' else msg)],
      errorType = Some ''ServerError''\<rparr>"

section \<open>Service: availability\<close>

record scheduleEntry =
  day :: string
  startTime :: string
  endTime :: string
  available :: bool

record exceptionEntry =
  ex_date :: date
  ex_available :: bool
  ex_reason :: string

record service =
  s_id :: objectId
  s_provider :: objectId
  isActive :: bool
  isPaused :: bool
  schedule :: "scheduleEntry list"
  exceptions :: "exceptionEntry list"
  advanceBooking :: "jsnum option"
  pricing_type :: string
  pricing_amount :: "jsnum option"
  pricing_currency :: string

text \<open>
  \<open>new Date(x)\<close> for a Number \<open>x\<close>: the time value is \<open>x\<close> truncated to an integer, and the
  date is invalid (\<open>NaN\<close>) when \<open>x\<close> is not finite or beyond 8.64e15 milliseconds.
\<close>

fun new_Date :: "jsnum \<Rightarrow> jsnum" where
  "new_Date (Num t) =
     (if 8640000000000000 < \<bar>t\<bar> then NaN
      else Num (of_int (if 0 \<le> t then \<lfloor>t\<rfloor> else \<lceil>t\<rceil>)))"
| "new_Date x = NaN"

text \<open>
  \<open>Date.prototype\<close> has no method \<open>toLocaleLowerCase\<close> (it is a method of strings): reading
  the property gives \<open>undefined\<close>, and calling it throws, for every date.
\<close>

definition Date_toLocaleLowerCase :: "jsnum \<Rightarrow> js_exn + string" where
  "Date_toLocaleLowerCase d = Inl (TypeError ''requestDate.toLocaleLowerCase is not a function'')"

text \<open>
  \<open>toDateString()\<close> names the calendar day of a date; two dates give the same string exactly
  when they fall on the same day. The day is modelled by its number (in UTC), an invalid
  date by \<open>None\<close>.
\<close>

fun toDateString :: "jsnum \<Rightarrow> int option" where
  "toDateString (Num t) = Some (\<lfloor>t / 86400000\<rfloor>)"
| "toDateString x = None"

definition startsWith :: "string \<Rightarrow> string \<Rightarrow> bool" where
  "startsWith s p = (take (length p) s = p)"

text \<open>\<open>serviceSchema.methods.isAvailable\<close>; \<open>duration\<close> is the parameter the body never reads.\<close>

definition isAvailable :: "service \<Rightarrow> jsnum \<Rightarrow> jsnum \<Rightarrow> js_exn + bool" where
  "isAvailable this dt duration =
     (if \<not> isActive this \<or> isPaused this then Inr False
      else
        let requestDate = new_Date dt in
        (case Date_toLocaleLowerCase requestDate of
           Inl e \<Rightarrow> Inl e
         | Inr lowered \<Rightarrow>
             (let dayOfWeek = take 3 lowered;
                  daySchedule =
                    find (\<lambda>sch. startsWith (day sch) dayOfWeek \<and> available sch) (schedule this)
              in (case daySchedule of
                    None \<Rightarrow> Inr False
                  | Some sch \<Rightarrow>
                      (let hasException =
                             list_ex (\<lambda>ex. toDateString (Num (of_int (ex_date ex))) =
                                             toDateString requestDate \<and> \<not> ex_available ex)
                               (exceptions this)
                       in Inr (\<not> hasException))))))"

section \<open>Booking: the document and its methods\<close>

text \<open>
  The booking document, with the fields the modelled methods and routes read or write.
  A field that the schema does not require is an option (\<open>None\<close> is \<open>undefined\<close>).
  \<open>isNew\<close> and \<open>pricing_modified\<close> are the change tracking of the document:
  \<open>this.isNew\<close> and \<open>this.isModified('pricing')\<close>.
\<close>

record statusEntry =
  se_status :: string
  changedAt :: date
  changedBy :: objectId
  se_reason :: string
  se_notes :: string

record booking =
  b_id :: objectId
  customer :: objectId
  provider :: objectId
  b_service :: objectId
  scheduledDate :: date
  scheduledTime :: string
  estimatedDuration :: jsnum
  servicePrice :: "jsnum option"
  platformFee :: "jsnum option"
  taxes :: "jsnum option"
  totalAmount :: "jsnum option"
  currency :: string
  status :: string
  statusHistory :: "statusEntry list"
  completedAt :: "date option"
  cancelledAt :: "date option"
  cancelledBy :: "objectId option"
  cancellation_reason :: "string option"
  refundAmount :: "jsnum option"
  refundStatus :: string
  isNew :: bool
  pricing_modified :: bool

subsection \<open>The validators of the schema\<close>

text \<open>
  \<open>min: m\<close> on a Number path accepts \<open>v\<close> when \<open>v >= m\<close>, which \<open>NaN\<close> never is;
  \<open>required\<close> refuses a missing value; \<open>enum\<close> accepts a missing value and the listed
  strings; \<open>match\<close> on \<open>scheduledTime\<close> is the pattern
  \<open>/^([01]?[0-9]|2[0-3]):[0-5][0-9]$/\<close>.
\<close>

definition min_ok :: "rat \<Rightarrow> jsnum \<Rightarrow> bool" where
  "min_ok m v = (v \<noteq> NaN \<and> \<not> js_lt v (Num m))"

definition required_min :: "rat \<Rightarrow> jsnum option \<Rightarrow> bool" where
  "required_min m x = (case x of None \<Rightarrow> False | Some v \<Rightarrow> min_ok m v)"

definition optional_min :: "rat \<Rightarrow> jsnum option \<Rightarrow> bool" where
  "optional_min m x = (case x of None \<Rightarrow> True | Some v \<Rightarrow> min_ok m v)"

definition optional_enum :: "string list \<Rightarrow> string option \<Rightarrow> bool" where
  "optional_enum values x = (case x of None \<Rightarrow> True | Some v \<Rightarrow> v \<in> set values)"

definition digit_upto :: "nat \<Rightarrow> char \<Rightarrow> bool" where
  "digit_upto n c = (48 \<le> (of_char c :: nat) \<and> (of_char c :: nat) \<le> 48 + n)"

fun time_ok :: "string \<Rightarrow> bool" where
  "time_ok [h, c, m1, m2] =
     (digit_upto 9 h \<and> c = CHR '':'' \<and> digit_upto 5 m1 \<and> digit_upto 9 m2)"
| "time_ok [h1, h2, c, m1, m2] =
     (((digit_upto 1 h1 \<and> digit_upto 9 h2) \<or> (h1 = CHR ''2'' \<and> digit_upto 3 h2))
      \<and> c = CHR '':'' \<and> digit_upto 5 m1 \<and> digit_upto 9 m2)"
| "time_ok s = False"

definition booking_statuses :: "string list" where
  "booking_statuses =
     [''pending'', ''confirmed'', ''in_progress'', ''completed'', ''cancelled'', ''no_show'',
      ''disputed'']"

definition cancellation_reasons :: "string list" where
  "cancellation_reasons =
     [''customer_request'', ''provider_unavailable'', ''weather'', ''emergency'',
      ''payment_issue'', ''mutual_agreement'', ''other'']"

definition refund_statuses :: "string list" where
  "refund_statuses = [''pending'', ''processed'', ''failed'', ''not_applicable'']"

text \<open>
  The validation \<open>save()\<close> runs before anything else, on the paths of the record; the paths
  the record leaves out (the title, the messages, the addresses) are taken to be valid.
\<close>

definition booking_valid :: "booking \<Rightarrow> bool" where
  "booking_valid this =
     (time_ok (scheduledTime this)
      \<and> min_ok 15 (estimatedDuration this)
      \<and> required_min 0 (servicePrice this)
      \<and> optional_min 0 (platformFee this)
      \<and> optional_min 0 (taxes this)
      \<and> required_min 0 (totalAmount this)
      \<and> status this \<in> set booking_statuses
      \<and> optional_enum cancellation_reasons (cancellation_reason this)
      \<and> optional_min 0 (refundAmount this)
      \<and> refundStatus this \<in> set refund_statuses)"

subsection \<open>Saving\<close>

text \<open>The first pre-save hook: the total is recomputed when the pricing was modified.\<close>

definition pre_save_totalAmount :: "booking \<Rightarrow> booking" where
  "pre_save_totalAmount this =
     (if pricing_modified this
      then this\<lparr>totalAmount :=
             Some (js_add (js_add (js_or (servicePrice this) (Num 0))
                                  (js_or (platformFee this) (Num 0)))
                          (js_or (taxes this) (Num 0)))\<rparr>
      else this)"

text \<open>The second pre-save hook: a new document gets its first history entry.\<close>

definition pre_save_history :: "date \<Rightarrow> booking \<Rightarrow> booking" where
  "pre_save_history now this =
     (if isNew this
      then this\<lparr>statusHistory := statusHistory this @
             [\<lparr>se_status = status this, changedAt = now, changedBy = customer this,
               se_reason = ''Booking created'', se_notes = ''Initial booking request''\<rparr>]\<rparr>
      else this)"

text \<open>
  \<open>this.save()\<close>. The document is validated first: when a validator fails the promise
  rejects with a \<open>ValidationError\<close>, no hook runs and nothing is written (\<open>Inl\<close>).
  Otherwise the two hooks run in the order of their registration and the document is
  written, after which it is neither new nor modified (\<open>Inr\<close>, the document as stored).
  \<open>now\<close> is the clock, read once per call.
\<close>

definition run_hooks :: "date \<Rightarrow> booking \<Rightarrow> booking" where
  "run_hooks now this =
     (pre_save_history now (pre_save_totalAmount this))\<lparr>isNew := False, pricing_modified := False\<rparr>"

definition booking_save :: "date \<Rightarrow> booking \<Rightarrow> js_exn + booking" where
  "booking_save now this =
     (if booking_valid this then Inr (run_hooks now this) else Inl ValidationError)"

subsection \<open>Methods\<close>

text \<open>
  \<open>bookingSchema.methods.updateStatus\<close>. Its synchronous part changes the document in
  memory, in the order of the source: the entry with the old status is pushed, the status
  is set, the completion and the cancellation are stamped. Its result is the promise of
  \<open>this.save()\<close> on the document so changed.
\<close>

definition push_history :: "date \<Rightarrow> objectId \<Rightarrow> string \<Rightarrow> string \<Rightarrow> booking \<Rightarrow> booking" where
  "push_history now by reason notes this =
     this\<lparr>statusHistory := statusHistory this @
       [\<lparr>se_status = status this, changedAt = now, changedBy = by,
         se_reason = reason, se_notes = notes\<rparr>]\<rparr>"

definition stamp_completion :: "date \<Rightarrow> string \<Rightarrow> booking \<Rightarrow> booking" where
  "stamp_completion now newStatus this =
     (if newStatus = ''completed'' \<and> completedAt this = None
      then this\<lparr>completedAt := Some now\<rparr> else this)"

definition stamp_cancellation :: "date \<Rightarrow> string \<Rightarrow> objectId \<Rightarrow> string \<Rightarrow> booking \<Rightarrow> booking" where
  "stamp_cancellation now newStatus by reason this =
     (if newStatus = ''cancelled'' \<and> cancelledAt this = None
      then this\<lparr>cancelledAt := Some now, cancelledBy := Some by,
                cancellation_reason := Some reason\<rparr>
      else this)"

definition updateStatus_memory ::
  "date \<Rightarrow> string \<Rightarrow> objectId \<Rightarrow> string \<Rightarrow> string \<Rightarrow> booking \<Rightarrow> booking" where
  "updateStatus_memory now newStatus by reason notes this =
     stamp_cancellation now newStatus by reason
       (stamp_completion now newStatus
          ((push_history now by reason notes this)\<lparr>status := newStatus\<rparr>))"

definition updateStatus ::
  "date \<Rightarrow> string \<Rightarrow> objectId \<Rightarrow> string \<Rightarrow> string \<Rightarrow> booking \<Rightarrow> js_exn + booking" where
  "updateStatus now newStatus by reason notes this =
     booking_save now (updateStatus_memory now newStatus by reason notes this)"

text \<open>
  \<open>bookingSchema.methods.calculateCancellationFee\<close>; \<open>now\<close> is the clock. The method
  reads \<open>scheduledDate\<close> and not \<open>scheduledTime\<close>.
\<close>

definition hoursUntilBooking :: "date \<Rightarrow> booking \<Rightarrow> jsnum" where
  "hoursUntilBooking now this =
     js_div (js_sub (Num (of_int (scheduledDate this))) (Num (of_int now)))
            (Num (1000 * 60 * 60))"

definition calculateCancellationFee :: "date \<Rightarrow> booking \<Rightarrow> jsnum" where
  "calculateCancellationFee now this =
     (if js_gt (hoursUntilBooking now this) (Num 24) then Num 0
      else if js_gt (hoursUntilBooking now this) (Num 2)
      then js_mul (toNumber (totalAmount this)) (Num (1 / 4))
      else js_mul (toNumber (totalAmount this)) (Num (1 / 2)))"

section \<open>Booking routes\<close>

text \<open>
  The middleware \<open>bookingParticipant\<close>: \<open>user\<close> is \<open>req.user\<close> as \<open>protect\<close> left it and
  \<open>found\<close> the result of \<open>Booking.findById\<close>. It passes on the booking with \<open>isCustomer\<close> and
  \<open>isProvider\<close>.
\<close>

definition bookingParticipant ::
  "objectId option \<Rightarrow> booking option \<Rightarrow> response + (booking \<times> bool \<times> bool)" where
  "bookingParticipant user found =
     (case user of
        None \<Rightarrow>
          Inl \<lparr>statusCode = 401, message = [Lit ''Authentication required''],
               errorType = Some ''AuthenticationError''\<rparr>
      | Some userId \<Rightarrow>
          (case found of
             None \<Rightarrow>
               Inl \<lparr>statusCode = 404, message = [Lit ''Booking not found''],
                    errorType = Some ''NotFoundError''\<rparr>
           | Some b \<Rightarrow>
               if userId \<noteq> customer b \<and> userId \<noteq> provider b
               then Inl \<lparr>statusCode = 403,
                         message = [Lit ''Access denied - not a participant in this booking''],
                         errorType = Some ''AuthorizationError''\<rparr>
               else Inr (b, userId = customer b, userId = provider b)))"

text \<open>
  The body of \<open>PUT /:id/status\<close> as the validation chain leaves it: \<open>status\<close> (the empty
  string when absent), and the optional \<open>reason\<close> and \<open>notes\<close> after \<open>trim()\<close>.
\<close>

record status_body =
  sb_status :: string
  sb_reason :: "string option"
  sb_notes :: "string option"

definition status_body_valid :: "status_body \<Rightarrow> bool" where
  "status_body_valid body =
     (sb_status body \<in> set [''confirmed'', ''in_progress'', ''completed'', ''cancelled'', ''no_show'']
      \<and> (case sb_reason body of None \<Rightarrow> True | Some r \<Rightarrow> length r \<le> 500)
      \<and> (case sb_notes body of None \<Rightarrow> True | Some n \<Rightarrow> length n \<le> 1000))"

definition validTransitions :: "(string \<times> string list) list" where
  "validTransitions =
     [(''pending'', [''confirmed'', ''cancelled'']),
      (''confirmed'', [''in_progress'', ''cancelled'', ''no_show'']),
      (''in_progress'', [''completed'', ''cancelled'']),
      (''completed'', []),
      (''cancelled'', []),
      (''no_show'', [])]"

definition or_empty :: "string option \<Rightarrow> string" where
  "or_empty x = (case x of None \<Rightarrow> [] | Some s \<Rightarrow> s)"

text \<open>
  The handler of \<open>PUT /:id/status\<close>, up to and including \<open>booking.updateStatus\<close>: \<open>Inl\<close> is
  the error response, \<open>Inr\<close> the booking as stored by the update. A status of the booking
  that the table does not list (\<open>disputed\<close>) makes \<open>validTransitions[booking.status]\<close>
  undefined, and \<open>.includes\<close> throws into the error handler, as does a rejected
  \<open>updateStatus\<close>. What follows the update in the source (the statistics of the service,
  the reputation of the provider, the broadcast) works on other documents and is not
  modelled.
\<close>

definition put_status ::
  "date \<Rightarrow> objectId \<Rightarrow> status_body \<Rightarrow> booking \<times> bool \<times> bool \<Rightarrow> response + booking" where
  "put_status now userId body ctx =
     (case ctx of (b, isCustomer, isProvider) \<Rightarrow>
        if \<not> status_body_valid body then Inl (reject 400 ''Validation Error'')
        else
          (case map_of validTransitions (status b) of
             None \<Rightarrow>
               Inl (errorHandler
                 (TypeError ''Cannot read properties of undefined (reading 'includes')''))
           | Some targets \<Rightarrow>
               if sb_status body \<notin> set targets
               then Inl (reject 400
                      (''Cannot change status from '' @ status b @ '' to '' @ sb_status body))
               else if sb_status body = ''confirmed'' \<and> \<not> isProvider
               then Inl (reject 403 ''Only service provider can confirm bookings'')
               else if sb_status body = ''completed'' \<and> \<not> isProvider
               then Inl (reject 403 ''Only service provider can mark bookings as completed'')
               else
                 (case updateStatus now (sb_status body) userId
                         (or_empty (sb_reason body)) (or_empty (sb_notes body)) b of
                    Inl e \<Rightarrow> Inl (errorHandler e)
                  | Inr saved \<Rightarrow> Inr saved)))"

text \<open>
  The route \<open>PUT /:id/status\<close>: the middleware, then the handler. \<open>userId\<close> is the user
  \<open>protect\<close> authenticated and \<open>found\<close> the booking the identifier of the request names.
\<close>

definition put_status_route ::
  "date \<Rightarrow> objectId \<Rightarrow> status_body \<Rightarrow> booking option \<Rightarrow> response + booking" where
  "put_status_route now userId body found =
     (case bookingParticipant (Some userId) found of
        Inl resp \<Rightarrow> Inl resp
      | Inr ctx \<Rightarrow> put_status now userId body ctx)"

text \<open>
  The handler of \<open>DELETE /:id\<close>: the response (\<open>Inl\<close> an error, \<open>Inr\<close> the refund and the
  fee) and the booking as it is stored afterwards. \<open>reason\<close> is the body's reason after
  \<open>trim()\<close>. The handler saves twice, through \<open>updateStatus\<close> and after setting the refund;
  a rejection of the second save leaves the first one stored.
\<close>

definition delete_booking ::
  "date \<Rightarrow> objectId \<Rightarrow> string \<Rightarrow> booking \<times> bool \<times> bool \<Rightarrow>
   (response + (jsnum \<times> jsnum)) \<times> booking" where
  "delete_booking now userId reason ctx =
     (case ctx of (b, isCustomer, isProvider) \<Rightarrow>
        if \<not> (5 \<le> length reason \<and> length reason \<le> 500)
        then (Inl (reject 400 ''Validation Error''), b)
        else if status b \<notin> set [''pending'', ''confirmed'']
        then (Inl (reject 400 ''Only pending or confirmed bookings can be cancelled''), b)
        else
          (let cancellationFee = calculateCancellationFee now b;
               refund = js_sub (toNumber (totalAmount b)) cancellationFee
           in (case updateStatus now ''cancelled'' userId reason [] b of
                 Inl e \<Rightarrow> (Inl (errorHandler e), b)
               | Inr b1 \<Rightarrow>
                   (case booking_save now
                           (b1\<lparr>refundAmount := Some refund,
                               refundStatus :=
                                 (if js_gt refund (Num 0) then ''pending''
                                  else ''not_applicable'')\<rparr>) of
                      Inl e \<Rightarrow> (Inl (errorHandler e), b1)
                    | Inr b2 \<Rightarrow> (Inr (refund, cancellationFee), b2)))))"

text \<open>The route \<open>DELETE /:id\<close>: the middleware, then the handler.\<close>

definition delete_route ::
  "date \<Rightarrow> objectId \<Rightarrow> string \<Rightarrow> booking option \<Rightarrow>
   (response + (jsnum \<times> jsnum)) \<times> booking option" where
  "delete_route now userId reason found =
     (case bookingParticipant (Some userId) found of
        Inl resp \<Rightarrow> (Inl resp, found)
      | Inr ctx \<Rightarrow>
          (case delete_booking now userId reason ctx of
             (result, stored) \<Rightarrow> (result, Some stored)))"



text \<open>
  \<open>Booking.create\<close>: the new document goes through \<open>save\<close>; when it is accepted it is added
  to the collection.
\<close>

definition Booking_create ::
  "date \<Rightarrow> booking \<Rightarrow> booking list \<Rightarrow> js_exn + (booking \<times> booking list)" where
  "Booking_create now doc bookings =
     (case booking_save now doc of
        Inl e \<Rightarrow> Inl e
      | Inr saved \<Rightarrow> Inr (saved, bookings @ [saved]))"



section \<open>Community post: likes\<close>


record comment =
  c_author :: objectId
  isHidden :: bool









text \<open>
  A post that is stored passed the validators of its schema, and the two methods above
  write likes only, on which the schema declares no validator: \<open>save()\<close> is modelled by
  its hooks.
\<close>

subsection \<open>Creating a post\<close>





section \<open>Review: creation\<close>

record review =
  rv_id :: objectId
  reviewer :: objectId
  reviewee :: objectId
  rv_service :: objectId
  rv_booking :: objectId
  rating :: jsnum
  reviewType :: string
  rv_isActive :: bool

text \<open>
  \<open>Review.create\<close> under the indexes the schema declares: the only unique index is the one
  of the field \<open>booking\<close> (\<open>unique: true\<close>), so the insertion of a second document with the
  same booking fails with the duplicate-key error, whatever its \<open>reviewType\<close>.
\<close>

definition Review_create :: "review \<Rightarrow> review list \<Rightarrow> js_exn + review list" where
  "Review_create doc reviews =
     (if rv_booking doc \<in> set (map rv_booking reviews)
      then Inl (DuplicateKey ''booking'' (rv_booking doc))
      else Inr (reviews @ [doc]))"

text \<open>
  The body of \<open>POST /api/reviews\<close>; \<open>rb_valid\<close> is the verdict of the validation chain.
\<close>

record review_body =
  rb_valid :: bool
  rb_booking :: objectId
  rb_rating :: jsnum
  rb_reviewType :: string

text \<open>
  The handler of \<open>POST /api/reviews\<close>, up to and including \<open>Review.create\<close>: the response
  (\<open>Inl\<close> an error, \<open>Inr\<close> the review created) and the collection of reviews afterwards.
  \<open>bookings\<close> is the collection \<open>Booking.findById\<close> searches; the customer and the provider
  of a booking found are taken to resolve under \<open>populate\<close>.
\<close>

definition post_review ::
  "objectId \<Rightarrow> objectId \<Rightarrow> review_body \<Rightarrow> booking list \<Rightarrow> review list \<Rightarrow>
   (response + review) \<times> review list" where
  "post_review newId userId body bookings reviews =
     (if \<not> rb_valid body then (Inl (reject 400 ''Validation Error''), reviews)
      else
        (case find (\<lambda>b. b_id b = rb_booking body) bookings of
           None \<Rightarrow> (Inl (reject 404 ''Booking not found''), reviews)
         | Some b \<Rightarrow>
             if status b \<noteq> ''completed''
             then (Inl (reject 400 ''Can only review completed bookings''), reviews)
             else
               (let isCustomer = (customer b = userId);
                    isProvider = (provider b = userId)
                in if \<not> isCustomer \<and> \<not> isProvider
                   then (Inl (reject 403 ''Not authorized to review this booking''), reviews)
                   else if isCustomer \<and> rb_reviewType body \<noteq> ''customer_to_provider''
                   then (Inl (reject 400
                           ''Customers can only create customer_to_provider reviews''), reviews)
                   else if isProvider \<and> rb_reviewType body \<noteq> ''provider_to_customer''
                   then (Inl (reject 400
                           ''Providers can only create provider_to_customer reviews''), reviews)
                   else if find (\<lambda>r. rv_booking r = b_id b \<and> reviewType r = rb_reviewType body)
                             reviews \<noteq> None
                   then (Inl (reject 400 ''Review already exists for this booking''), reviews)
                   else
                     (let doc = \<lparr>rv_id = newId,
                                 reviewer = (if isCustomer then customer b else provider b),
                                 reviewee = (if isCustomer then provider b else customer b),
                                 rv_service = b_service b, rv_booking = rb_booking body,
                                 rating = rb_rating body, reviewType = rb_reviewType body,
                                 rv_isActive = True\<rparr>
                      in (case Review_create doc reviews of
                            Inl e \<Rightarrow> (Inl (errorHandler e), reviews)
                          | Inr reviews' \<Rightarrow> (Inr doc, reviews'))))))"

section \<open>User: serialization\<close>

text \<open>
  A plain object is the list of its properties. A user document is the object of the paths
  it was loaded with.
\<close>

datatype jsval = JString string | JNumber jsnum | JBoolean bool | JNull
  | JObject "(string \<times> jsval) list"

type_synonym obj = "(string \<times> jsval) list"

definition js_delete :: "string \<Rightarrow> obj \<Rightarrow> obj" where
  "js_delete key ob = filter (\<lambda>kv. fst kv \<noteq> key) ob"

text \<open>The text a template literal gives for a property (\<open>undefined\<close> when it is missing).\<close>

definition template_text :: "obj \<Rightarrow> string \<Rightarrow> string" where
  "template_text ob key =
     (case map_of ob key of Some (JString s) \<Rightarrow> s | Some JNull \<Rightarrow> ''null'' | _ \<Rightarrow> ''undefined'')"

text \<open>
  \<open>this.toObject()\<close> under the schema option \<open>toObject: { virtuals: true }\<close>: the paths of
  the document and the virtual \<open>fullName\<close>.
\<close>

definition toObject :: "obj \<Rightarrow> obj" where
  "toObject this =
     this @ [(''fullName'',
              JString (template_text this ''firstName'' @ '' '' @ template_text this ''lastName''))]"

text \<open>\<open>userSchema.methods.toJSON\<close>.\<close>

definition toJSON :: "obj \<Rightarrow> obj" where
  "toJSON this = (let user = toObject this in js_delete ''password'' user)"

text \<open>
  The paths the user schema declares with \<open>select: false\<close>, and the projection of a stored
  document by a query that selects nothing: those paths are left out.
\<close>

definition userSchema_unselected :: "string list" where
  "userSchema_unselected = [''password'']"

definition default_projection :: "obj \<Rightarrow> obj" where
  "default_projection stored = filter (\<lambda>kv. fst kv \<notin> set userSchema_unselected) stored"

section \<open>Sample documents\<close>

text \<open>Concrete documents on which the results below are instantiated.\<close>

definition sample_booking :: booking where
  "sample_booking =
     \<lparr>b_id = ''b1'', customer = ''alice'', provider = ''bob'', b_service = ''s1'',
      scheduledDate = 36000000, scheduledTime = ''00:00'', estimatedDuration = Num 60,
      servicePrice = Some (Num 100), platformFee = Some (Num 3),
      taxes = Some (fl (824 / 100)), totalAmount = Some (fl (11124 / 100)),
      currency = ''USD'', status = ''pending'',
      statusHistory = [], completedAt = None, cancelledAt = None, cancelledBy = None,
      cancellation_reason = None, refundAmount = None, refundStatus = ''not_applicable'',
      isNew = False, pricing_modified = False\<rparr>"

definition sample_service :: service where
  "sample_service =
     \<lparr>s_id = ''s1'', s_provider = ''bob'', isActive = True, isPaused = False,
      schedule = [\<lparr>day = ''monday'', startTime = ''09:00'', endTime = ''17:00'', available = True\<rparr>],
      exceptions = [], advanceBooking = Some (Num 24), pricing_type = ''fixed'',
      pricing_amount = Some (Num 100), pricing_currency = ''USD''\<rparr>"



definition sample_user :: obj where
  "sample_user =
     [(''firstName'', JString ''Alice''), (''lastName'', JString ''Rao''),
      (''email'', JString ''a@x.com''), (''password'', JString ''$2a$12$hash''),
      (''trustScore'', JNumber (Num 0))]"

definition sample_review :: review where
  "sample_review =
     \<lparr>rv_id = ''r1'', reviewer = ''alice'', reviewee = ''bob'', rv_service = ''s1'',
      rv_booking = ''b1'', rating = Num 5, reviewType = ''customer_to_provider'',
      rv_isActive = True\<rparr>"

section \<open>Results: rounding to a double\<close>










lemma fl_zero: "fl 0 = Num 0"
  by (simp add: fl_def)

lemma fl_not_NaN: "fl x \<noteq> NaN"
  by (simp add: fl_def Let_def inf_signed_def)














section \<open>Results: the trust score\<close>

lemma calculateTrustScore_no_reviews:
  "calculateTrustScore (r\<lparr>totalReviews := Num 0\<rparr>) = Num 0"
  by (simp add: calculateTrustScore_def)

text \<open>
  The example of the specification: 10 reviews, average rating 5, 10 services completed
  and none cancelled score 100.
\<close>

lemma calculateTrustScore_full_marks:
  "calculateTrustScore \<lparr>totalReviews = Num 10, averageRating = Num 5,
     completedServices = Num 10, cancelledServices = Num 0\<rparr> = Num 100"
  by code_simp

text \<open>
  Claim C1. The score of a user with reviews is said to be well defined when the user
  has neither completed nor cancelled services, the denominator of the completion rate
  being floored at 1. The method divides by \<open>completedServices + cancelledServices\<close>
  as it is: for such a user the completion rate is \<open>0 / 0\<close>, and the method returns
  \<open>NaN\<close>, whatever the number of reviews and the average rating.
\<close>

theorem calculateTrustScore_zero_services_NaN:
  "totalReviews r \<noteq> Num 0 \<Longrightarrow>
   calculateTrustScore (r\<lparr>completedServices := Num 0, cancelledServices := Num 0\<rparr>) = NaN"
  by (cases "js_mul (js_div (averageRating r) (Num 5)) (Num 100)")
     (simp_all add: calculateTrustScore_def Math_min_def fl_zero)

theorem calculateTrustScore_zero_services_NaN_witness:
  "totalReviews \<lparr>totalReviews = Num 1, averageRating = Num 5,
     completedServices = Num 3, cancelledServices = Num 2\<rparr> \<noteq> Num 0 \<and>
   calculateTrustScore \<lparr>totalReviews = Num 1, averageRating = Num 5,
     completedServices = Num 0, cancelledServices = Num 0\<rparr> = NaN"
  using calculateTrustScore_zero_services_NaN
    [of "\<lparr>totalReviews = Num 1, averageRating = Num 5,
          completedServices = Num 3, cancelledServices = Num 2\<rparr>"]
  by simp

section \<open>Results: availability of a service\<close>

text \<open>
  Claim C2. \<open>isAvailable\<close> is said to return a boolean without throwing, for every service
  and date. It returns \<open>false\<close> for a service that is inactive or paused; for every other
  service it throws the \<open>TypeError\<close> of the call \<open>requestDate.toLocaleLowerCase()\<close>, before the
  schedule and the exceptions are read, whatever the date and the duration.
\<close>

theorem isAvailable_false_or_throws:
  "isAvailable this dt duration =
     (if \<not> isActive this \<or> isPaused this then Inr False
      else Inl (TypeError ''requestDate.toLocaleLowerCase is not a function''))"
  by (simp add: isAvailable_def Date_toLocaleLowerCase_def)

theorem isAvailable_false_or_throws_witness:
  "isAvailable sample_service (Num 1800000000000) (Num 60) =
     Inl (TypeError ''requestDate.toLocaleLowerCase is not a function'')
   \<and> isAvailable (sample_service\<lparr>isPaused := True\<rparr>) (Num 1800000000000) (Num 60) = Inr False"
  using isAvailable_false_or_throws [of sample_service "Num 1800000000000" "Num 60"]
    isAvailable_false_or_throws [of "sample_service\<lparr>isPaused := True\<rparr>" "Num 1800000000000" "Num 60"]
  by (simp add: sample_service_def)

section \<open>Results: saving a booking\<close>

lemma run_hooks_fields:
  "status (run_hooks now this) = status this"
  "completedAt (run_hooks now this) = completedAt this"
  "cancelledAt (run_hooks now this) = cancelledAt this"
  "cancelledBy (run_hooks now this) = cancelledBy this"
  "cancellation_reason (run_hooks now this) = cancellation_reason this"
  "refundAmount (run_hooks now this) = refundAmount this"
  "refundStatus (run_hooks now this) = refundStatus this"
  "servicePrice (run_hooks now this) = servicePrice this"
  "platformFee (run_hooks now this) = platformFee this"
  "taxes (run_hooks now this) = taxes this"
  "isNew (run_hooks now this) = False"
  "pricing_modified (run_hooks now this) = False"
  by (simp_all add: run_hooks_def pre_save_history_def pre_save_totalAmount_def)

lemma run_hooks_history:
  "statusHistory (run_hooks now this) =
     statusHistory this @
       (if isNew this
        then [\<lparr>se_status = status this, changedAt = now, changedBy = customer this,
               se_reason = ''Booking created'', se_notes = ''Initial booking request''\<rparr>]
        else [])"
  by (simp add: run_hooks_def pre_save_history_def pre_save_totalAmount_def)

lemma run_hooks_totalAmount:
  "totalAmount (run_hooks now this) =
     (if pricing_modified this
      then Some (js_add (js_add (js_or (servicePrice this) (Num 0))
                                (js_or (platformFee this) (Num 0)))
                        (js_or (taxes this) (Num 0)))
      else totalAmount this)"
  by (simp add: run_hooks_def pre_save_history_def pre_save_totalAmount_def)

lemma run_hooks_loaded:
  "\<not> isNew this \<Longrightarrow> \<not> pricing_modified this \<Longrightarrow> run_hooks now this = this"
  by (simp add: run_hooks_def pre_save_history_def pre_save_totalAmount_def)

lemma booking_save_Inr:
  "(booking_save now this = Inr saved) = (booking_valid this \<and> saved = run_hooks now this)"
  by (auto simp add: booking_save_def)

lemma booking_save_Inl:
  "(booking_save now this = Inl e) = (\<not> booking_valid this \<and> e = ValidationError)"
  by (auto simp add: booking_save_def)

lemma updateStatus_memory_fields:
  "status (updateStatus_memory now newStatus by reason notes this) = newStatus"
  "statusHistory (updateStatus_memory now newStatus by reason notes this) =
     statusHistory this @
       [\<lparr>se_status = status this, changedAt = now, changedBy = by,
         se_reason = reason, se_notes = notes\<rparr>]"
  "completedAt (updateStatus_memory now newStatus by reason notes this) =
     (if newStatus = ''completed'' \<and> completedAt this = None then Some now else completedAt this)"
  "cancelledAt (updateStatus_memory now newStatus by reason notes this) =
     (if newStatus = ''cancelled'' \<and> cancelledAt this = None then Some now else cancelledAt this)"
  "cancelledBy (updateStatus_memory now newStatus by reason notes this) =
     (if newStatus = ''cancelled'' \<and> cancelledAt this = None then Some by else cancelledBy this)"
  "cancellation_reason (updateStatus_memory now newStatus by reason notes this) =
     (if newStatus = ''cancelled'' \<and> cancelledAt this = None then Some reason
      else cancellation_reason this)"
  by (simp_all add: updateStatus_memory_def stamp_cancellation_def stamp_completion_def
        push_history_def)

lemma updateStatus_memory_unchanged:
  "isNew (updateStatus_memory now newStatus by reason notes this) = isNew this"
  "pricing_modified (updateStatus_memory now newStatus by reason notes this) = pricing_modified this"
  "customer (updateStatus_memory now newStatus by reason notes this) = customer this"
  "totalAmount (updateStatus_memory now newStatus by reason notes this) = totalAmount this"
  "refundAmount (updateStatus_memory now newStatus by reason notes this) = refundAmount this"
  "refundStatus (updateStatus_memory now newStatus by reason notes this) = refundStatus this"
  by (simp_all add: updateStatus_memory_def stamp_cancellation_def stamp_completion_def
        push_history_def)

text \<open>
  The document \<open>updateStatus\<close> leaves in memory is valid when the booking was, the new
  status is one the schema lists and, if a cancellation is stamped, so is the reason.
\<close>

lemma booking_valid_memory:
  assumes "booking_valid this"
    and "newStatus \<in> set booking_statuses"
    and "newStatus = ''cancelled'' \<and> cancelledAt this = None \<longrightarrow> reason \<in> set cancellation_reasons"
  shows "booking_valid (updateStatus_memory now newStatus by reason notes this)"
  using assms
  by (auto simp add: booking_valid_def updateStatus_memory_def stamp_cancellation_def
        stamp_completion_def push_history_def optional_enum_def)


lemma booking_valid_flags:
  "booking_valid (this\<lparr>isNew := a, pricing_modified := b\<rparr>) = booking_valid this"
  by (simp add: booking_valid_def)

section \<open>Results: the cancellation fee\<close>






text \<open>Values of the sample booking, which costs 111.24.\<close>

lemma sample_total: "fl (11124 / 100) = Num (7827819102323343 / 70368744177664)"
  by code_simp





lemma sample_booking_valid: "booking_valid sample_booking"
  by code_simp




section \<open>Results: status history and total of a booking\<close>

lemma updateStatus_result:
  "updateStatus now newStatus by reason notes this =
     (if booking_valid (updateStatus_memory now newStatus by reason notes this)
      then Inr (run_hooks now (updateStatus_memory now newStatus by reason notes this))
      else Inl ValidationError)"
  by (simp add: updateStatus_def booking_save_def)

lemma Booking_create_result:
  "Booking_create now doc bookings =
     (if booking_valid doc
      then Inr (run_hooks now doc, bookings @ [run_hooks now doc])
      else Inl ValidationError)"
  by (simp add: Booking_create_def booking_save_def)

text \<open>
  Claim C6. In memory, \<open>updateStatus\<close> appends to the history an entry holding the status
  the booking had before the call, with the actor, the reason and the notes, and sets the
  status to the new one. The completion time is stamped when the new status is
  \<open>completed\<close> and no completion time is set; the cancellation time, actor and reason are
  stamped when the new status is \<open>cancelled\<close> and no cancellation time is set; otherwise
  these fields keep their values. The document is then saved. If it passes the
  validation of the schema it is stored with that status, those stamps and that history,
  followed by the creation entry when the document was still new; if not, the call is
  rejected with a validation error and nothing is stored. Creating a valid booking
  stores it with the creation entry, made by the customer with the status of the document,
  appended to its history; an invalid one is rejected.
\<close>

theorem updateStatus_history_and_stamps:
  fixes this doc :: booking and now :: date and newStatus who reason remark :: string
  defines "mem \<equiv> updateStatus_memory now newStatus who reason remark this"
  shows "statusHistory mem =
           statusHistory this @
             [\<lparr>se_status = status this, changedAt = now, changedBy = who,
               se_reason = reason, se_notes = remark\<rparr>]
       \<and> status mem = newStatus
       \<and> completedAt mem =
           (if newStatus = ''completed'' \<and> completedAt this = None then Some now
            else completedAt this)
       \<and> cancelledAt mem =
           (if newStatus = ''cancelled'' \<and> cancelledAt this = None then Some now
            else cancelledAt this)
       \<and> cancelledBy mem =
           (if newStatus = ''cancelled'' \<and> cancelledAt this = None then Some who
            else cancelledBy this)
       \<and> cancellation_reason mem =
           (if newStatus = ''cancelled'' \<and> cancelledAt this = None then Some reason
            else cancellation_reason this)
       \<and> (booking_valid mem \<longrightarrow>
            (\<exists>saved. updateStatus now newStatus who reason remark this = Inr saved
               \<and> statusHistory saved =
                   statusHistory mem @
                     (if isNew this
                      then [\<lparr>se_status = newStatus, changedAt = now, changedBy = customer this,
                             se_reason = ''Booking created'',
                             se_notes = ''Initial booking request''\<rparr>]
                      else [])
               \<and> status saved = newStatus
               \<and> completedAt saved = completedAt mem
               \<and> cancelledAt saved = cancelledAt mem
               \<and> cancelledBy saved = cancelledBy mem
               \<and> cancellation_reason saved = cancellation_reason mem))
       \<and> (\<not> booking_valid mem \<longrightarrow>
            updateStatus now newStatus who reason remark this = Inl ValidationError)
       \<and> (booking_valid doc \<and> isNew doc \<longrightarrow>
            (\<exists>created. Booking_create now doc bookings = Inr (created, bookings @ [created])
               \<and> statusHistory created =
                   statusHistory doc @
                     [\<lparr>se_status = status doc, changedAt = now, changedBy = customer doc,
                       se_reason = ''Booking created'',
                       se_notes = ''Initial booking request''\<rparr>]))
       \<and> (\<not> booking_valid doc \<longrightarrow> Booking_create now doc bookings = Inl ValidationError)"
  unfolding mem_def
  by (simp add: updateStatus_memory_fields updateStatus_memory_unchanged updateStatus_result
        Booking_create_result run_hooks_fields run_hooks_history)

text \<open>
  The sample booking is cancelled by the provider at time 7 for the weather, and once more
  by the customer at time 9: the history entry of the first call holds \<open>pending\<close>, and the
  second call leaves the cancellation time at 7. A cancellation for \<open>rain\<close>, which the
  schema does not list as a reason, is rejected.
\<close>

theorem updateStatus_history_and_stamps_witness:
  "(\<exists>saved. updateStatus 7 ''cancelled'' ''bob'' ''weather'' ''rain'' sample_booking = Inr saved
      \<and> statusHistory saved =
          [\<lparr>se_status = ''pending'', changedAt = 7, changedBy = ''bob'',
            se_reason = ''weather'', se_notes = ''rain''\<rparr>]
      \<and> status saved = ''cancelled''
      \<and> cancelledAt saved = Some 7
      \<and> completedAt saved = None
      \<and> (\<exists>again. updateStatus 9 ''cancelled'' ''alice'' ''other'' [] saved = Inr again
             \<and> cancelledAt again = Some 7 \<and> cancelledBy again = Some ''bob''))
   \<and> updateStatus 7 ''cancelled'' ''bob'' ''rain'' [] sample_booking = Inl ValidationError"
proof -
  define mem where "mem = updateStatus_memory 7 ''cancelled'' ''bob'' ''weather'' ''rain'' sample_booking"
  define mem2 where "mem2 = updateStatus_memory 9 ''cancelled'' ''alice'' ''other'' [] (run_hooks 7 mem)"
  have v: "booking_valid mem"
    unfolding mem_def using sample_booking_valid
    by (intro booking_valid_memory) (simp_all add: booking_statuses_def cancellation_reasons_def)
  have s1: "updateStatus 7 ''cancelled'' ''bob'' ''weather'' ''rain'' sample_booking
              = Inr (run_hooks 7 mem)"
    using v by (simp add: updateStatus_result mem_def)
  have v1: "booking_valid (run_hooks 7 mem)"
    using v by (simp add: run_hooks_loaded mem_def updateStatus_memory_unchanged sample_booking_def)
  have v2: "booking_valid mem2"
    unfolding mem2_def using v1
    by (intro booking_valid_memory) (simp_all add: booking_statuses_def cancellation_reasons_def)
  note first = updateStatus_history_and_stamps
    [of 7 "''cancelled''" "''bob''" "''weather''" "''rain''" sample_booking]
  note second = updateStatus_history_and_stamps
    [of 9 "''cancelled''" "''alice''" "''other''" "[]" "run_hooks 7 mem"]
  note third = updateStatus_history_and_stamps
    [of 7 "''cancelled''" "''bob''" "''rain''" "[]" sample_booking]
  have bad: "\<not> booking_valid (updateStatus_memory 7 ''cancelled'' ''bob'' ''rain'' [] sample_booking)"
    by (simp add: booking_valid_def updateStatus_memory_fields optional_enum_def
          cancellation_reasons_def sample_booking_def)
  from third bad have r3: "updateStatus 7 ''cancelled'' ''bob'' ''rain'' [] sample_booking
                             = Inl ValidationError"
    by blast
  from second v2 [unfolded mem2_def]
  have r2: "\<exists>again. updateStatus 9 ''cancelled'' ''alice'' ''other'' [] (run_hooks 7 mem) = Inr again
             \<and> cancelledAt again = Some 7 \<and> cancelledBy again = Some ''bob''"
    by (simp add: updateStatus_result run_hooks_fields updateStatus_memory_fields mem_def
          sample_booking_def)
  from first v [unfolded mem_def] s1 r2
  have r1: "\<exists>saved. updateStatus 7 ''cancelled'' ''bob'' ''weather'' ''rain'' sample_booking = Inr saved
      \<and> statusHistory saved =
          [\<lparr>se_status = ''pending'', changedAt = 7, changedBy = ''bob'',
            se_reason = ''weather'', se_notes = ''rain''\<rparr>]
      \<and> status saved = ''cancelled''
      \<and> cancelledAt saved = Some 7
      \<and> completedAt saved = None
      \<and> (\<exists>again. updateStatus 9 ''cancelled'' ''alice'' ''other'' [] saved = Inr again
             \<and> cancelledAt again = Some 7 \<and> cancelledBy again = Some ''bob'')"
    by (simp add: mem_def [symmetric] run_hooks_fields run_hooks_history
          updateStatus_memory_fields updateStatus_memory_unchanged sample_booking_def)
  from r1 r3 show ?thesis by blast
qed

text \<open>
  Claim C7. The pre-save hook sets the total of a booking whose pricing was modified to
  \<open>(servicePrice || 0) + (platformFee || 0) + (taxes || 0)\<close>, a sum of doubles taken from
  left to right, a missing component counting as 0. Saving a booking that passes the
  validation of the schema stores it with its three components unchanged and, when the
  pricing was modified, with that total; a booking that fails the validation (its service
  price is missing, or a component is negative) is rejected and nothing is stored.
\<close>

theorem totalAmount_recomputed:
  fixes this :: booking and now :: date
  defines "expected \<equiv> js_add (js_add (js_or (servicePrice this) (Num 0))
                                        (js_or (platformFee this) (Num 0)))
                                (js_or (taxes this) (Num 0))"
  shows "(pricing_modified this \<longrightarrow> totalAmount (pre_save_totalAmount this) = Some expected)
       \<and> (booking_valid this \<longrightarrow>
            (\<exists>saved. booking_save now this = Inr saved
               \<and> servicePrice saved = servicePrice this
               \<and> platformFee saved = platformFee this
               \<and> taxes saved = taxes this
               \<and> totalAmount saved = (if pricing_modified this then Some expected
                                        else totalAmount this)))
       \<and> (\<not> booking_valid this \<longrightarrow> booking_save now this = Inl ValidationError)"
  unfolding expected_def
  by (simp add: booking_save_def run_hooks_fields run_hooks_totalAmount pre_save_totalAmount_def)

text \<open>
  The sample booking with the service price set to 0.1, the platform fee to 0.2 and the
  taxes removed: the total stored is the double 0.30000000000000004 (it was 111.24). With
  the service price removed, the booking is rejected.
\<close>

lemma sample_sum:
  "js_add (js_add (fl (1 / 10)) (fl (2 / 10))) (Num 0) =
     fl (30000000000000004 / 100000000000000000)"
  by code_simp

lemma sample_sum_rounded: "fl (30000000000000004 / 100000000000000000) \<noteq> fl (3 / 10)"
  by code_simp

lemma sample_repriced_valid:
  "booking_valid (sample_booking\<lparr>servicePrice := Some (fl (1 / 10)),
     platformFee := Some (fl (2 / 10)), taxes := None, pricing_modified := True\<rparr>)"
  by code_simp

lemma sample_repriced_total:
  "js_add (js_add (js_or (Some (fl (1 / 10))) (Num 0)) (js_or (Some (fl (2 / 10))) (Num 0)))
          (js_or None (Num 0)) = fl (30000000000000004 / 100000000000000000)"
  by code_simp

theorem totalAmount_recomputed_witness:
  "(\<exists>saved. booking_save 3
       (sample_booking\<lparr>servicePrice := Some (fl (1 / 10)), platformFee := Some (fl (2 / 10)),
          taxes := None, pricing_modified := True\<rparr>) = Inr saved
      \<and> totalAmount saved = Some (fl (30000000000000004 / 100000000000000000)))
   \<and> fl (30000000000000004 / 100000000000000000) \<noteq> fl (3 / 10)
   \<and> booking_save 3 (sample_booking\<lparr>servicePrice := None, pricing_modified := True\<rparr>)
       = Inl ValidationError"
proof -
  let ?b = "sample_booking\<lparr>servicePrice := Some (fl (1 / 10)), platformFee := Some (fl (2 / 10)),
          taxes := None, pricing_modified := True\<rparr>"
  let ?c = "sample_booking\<lparr>servicePrice := None, pricing_modified := True\<rparr>"
  have bad: "\<not> booking_valid ?c"
    by (simp add: booking_valid_def required_min_def)
  have r2: "booking_save 3 ?c = Inl ValidationError"
    using totalAmount_recomputed [of ?c 3] bad by blast
  have "\<exists>saved. booking_save 3 ?b = Inr saved
          \<and> totalAmount saved =
              Some (js_add (js_add (js_or (Some (fl (1 / 10))) (Num 0))
                                   (js_or (Some (fl (2 / 10))) (Num 0)))
                           (js_or None (Num 0)))"
    using totalAmount_recomputed [of ?b 3] sample_repriced_valid by auto
  then have r1: "\<exists>saved. booking_save 3 ?b = Inr saved
      \<and> totalAmount saved = Some (fl (30000000000000004 / 100000000000000000))"
    unfolding sample_repriced_total .
  from r1 r2 sample_sum_rounded show ?thesis by blast
qed

section \<open>Results: the status routes\<close>

lemma status_body_valid_status:
  "status_body_valid body \<Longrightarrow>
   sb_status body \<in> {''confirmed'', ''in_progress'', ''completed'', ''cancelled'', ''no_show''}"
  by (simp add: status_body_valid_def)

lemma put_status_passes:
  assumes "status_body_valid body"
    and "(status b, sb_status body) \<in>
           {(''pending'', ''confirmed''), (''pending'', ''cancelled''),
            (''confirmed'', ''in_progress''), (''confirmed'', ''cancelled''),
            (''confirmed'', ''no_show''),
            (''in_progress'', ''completed''), (''in_progress'', ''cancelled'')}"
    and "sb_status body \<in> {''confirmed'', ''completed''} \<longrightarrow> isProvider"
  shows "put_status now userId body (b, isCustomer, isProvider) =
           (case updateStatus now (sb_status body) userId
                   (or_empty (sb_reason body)) (or_empty (sb_notes body)) b of
              Inl e \<Rightarrow> Inl (errorHandler e)
            | Inr saved \<Rightarrow> Inr saved)"
  using assms by (auto simp add: put_status_def validTransitions_def)

lemma put_status_refused:
  assumes "\<not> (status_body_valid body
     \<and> (status b, sb_status body) \<in>
           {(''pending'', ''confirmed''), (''pending'', ''cancelled''),
            (''confirmed'', ''in_progress''), (''confirmed'', ''cancelled''),
            (''confirmed'', ''no_show''),
            (''in_progress'', ''completed''), (''in_progress'', ''cancelled'')}
     \<and> (sb_status body \<in> {''confirmed'', ''completed''} \<longrightarrow> isProvider))"
  shows "\<exists>resp. put_status now userId body (b, isCustomer, isProvider) = Inl resp
           \<and> statusCode resp \<in> {400, 403, 500}"
proof (cases "status_body_valid body")
  case False
  then show ?thesis by (simp add: put_status_def reject_def)
next
  case True
  note st = status_body_valid_status [OF True]
  show ?thesis
  proof (cases "map_of validTransitions (status b)")
    case None
    with True show ?thesis by (simp add: put_status_def)
  next
    case (Some targets)
    with True assms st show ?thesis
      by (auto simp add: put_status_def validTransitions_def reject_def split: if_splits)
  qed
qed

lemma put_status_route_participant:
  assumes "userId = customer b \<or> userId = provider b"
  shows "put_status_route now userId body (Some b) =
           put_status now userId body (b, userId = customer b, userId = provider b)"
  using assms by (auto simp add: put_status_route_def bookingParticipant_def)

lemma put_status_route_stranger:
  assumes "\<not> (userId = customer b \<or> userId = provider b)"
  shows "put_status_route now userId body (Some b) =
           Inl \<lparr>statusCode = 403,
                message = [Lit ''Access denied - not a participant in this booking''],
                errorType = Some ''AuthorizationError''\<rparr>"
  using assms by (simp add: put_status_route_def bookingParticipant_def)

lemma put_status_route_missing:
  "put_status_route now userId body None =
     Inl \<lparr>statusCode = 404, message = [Lit ''Booking not found''],
          errorType = Some ''NotFoundError''\<rparr>"
  by (simp add: put_status_route_def bookingParticipant_def)

lemma cancellation_reasons_short: "r \<in> set cancellation_reasons \<Longrightarrow> length r \<le> 500"
  by (auto simp add: cancellation_reasons_def)

lemma delete_route_stored:
  assumes "delete_route now userId reason found = (result, stored)"
  shows "stored = found
       \<or> (\<exists>b b'. found = Some b \<and> stored = Some b'
             \<and> (userId = customer b \<or> userId = provider b)
             \<and> status b \<in> {''pending'', ''confirmed''} \<and> status b' = ''cancelled'')"
proof (cases found)
  case None
  with assms show ?thesis by (simp add: delete_route_def bookingParticipant_def)
next
  case (Some b)
  show ?thesis
  proof (cases "userId = customer b \<or> userId = provider b")
    case False
    with assms Some show ?thesis by (simp add: delete_route_def bookingParticipant_def)
  next
    case True
    then have ctx: "bookingParticipant (Some userId) (Some b)
                      = Inr (b, userId = customer b, userId = provider b)"
      by (auto simp add: bookingParticipant_def)
    show ?thesis
    proof (cases "5 \<le> length reason \<and> length reason \<le> 500
                   \<and> status b \<in> {''pending'', ''confirmed''}")
      case False
      with assms Some ctx have "stored = found"
        by (auto simp add: delete_route_def delete_booking_def split: if_splits)
      then show ?thesis ..
    next
      case ok: True
      show ?thesis
      proof (cases "updateStatus now ''cancelled'' userId reason [] b")
        case (Inl e)
        with assms Some ctx ok have "stored = found"
          by (auto simp add: delete_route_def delete_booking_def Let_def)
        then show ?thesis ..
      next
        case (Inr b1)
        then have s1: "status b1 = ''cancelled''"
          by (auto simp add: updateStatus_def booking_save_Inr run_hooks_fields
                updateStatus_memory_fields)
        have "\<exists>b'. stored = Some b' \<and> status b' = ''cancelled''"
          using assms Some ctx ok Inr s1
          by (auto simp add: delete_route_def delete_booking_def Let_def booking_save_Inr
                run_hooks_fields split: sum.splits)
        with Some True ok show ?thesis by blast
      qed
    qed
  qed
qed

text \<open>
  Claim C5. A request to \<open>PUT /:id/status\<close> on a booking is applied exactly when the
  requester is the customer or the provider of the booking, the body is valid, the pair of
  the current and the requested status is one of pending to confirmed or cancelled,
  confirmed to in-progress, cancelled or no-show, in-progress to completed or cancelled,
  the requester is the provider of the booking if the requested status is confirmed or
  completed, and the booking as updated passes the validation of the schema; the booking
  stored then has the requested status. Every other request on a booking is answered
  with an error response (400, 403 or 500) and no update, and a request that names no
  booking with 404; so nothing leaves completed, cancelled or no-show. The customer and
  the provider alike cancel a valid pending, confirmed or in-progress booking with a
  reason the schema lists. Whatever \<open>DELETE /:id\<close> answers, it either leaves the booking
  as it was or takes a pending or confirmed booking of the requester to cancelled.
\<close>

theorem status_routes_respect_transitions:
  fixes body :: status_body and b :: booking and now :: date and userId reason :: objectId
  defines "mem \<equiv> updateStatus_memory now (sb_status body) userId
                     (or_empty (sb_reason body)) (or_empty (sb_notes body)) b"
  defines "allowed \<equiv>
     (userId = customer b \<or> userId = provider b)
     \<and> status_body_valid body
     \<and> (status b, sb_status body) \<in>
           {(''pending'', ''confirmed''), (''pending'', ''cancelled''),
            (''confirmed'', ''in_progress''), (''confirmed'', ''cancelled''),
            (''confirmed'', ''no_show''),
            (''in_progress'', ''completed''), (''in_progress'', ''cancelled'')}
     \<and> (sb_status body \<in> {''confirmed'', ''completed''} \<longrightarrow> userId = provider b)
     \<and> booking_valid mem"
  shows "(allowed \<longrightarrow>
            (\<exists>saved. put_status_route now userId body (Some b) = Inr saved
                      \<and> status saved = sb_status body))
       \<and> (\<not> allowed \<longrightarrow>
            (\<exists>resp. put_status_route now userId body (Some b) = Inl resp
                     \<and> statusCode resp \<in> {400, 403, 500}))
       \<and> (\<exists>resp. put_status_route now userId body None = Inl resp \<and> statusCode resp = 404)
       \<and> ((userId = customer b \<or> userId = provider b)
            \<and> status b \<in> {''pending'', ''confirmed'', ''in_progress''}
            \<and> booking_valid b \<and> reason \<in> set cancellation_reasons \<longrightarrow>
            (\<exists>saved. put_status_route now userId
                        \<lparr>sb_status = ''cancelled'', sb_reason = Some reason, sb_notes = None\<rparr>
                        (Some b) = Inr saved
                      \<and> status saved = ''cancelled''))
       \<and> (\<forall>found result stored.
            delete_route now userId reason found = (result, stored) \<longrightarrow>
            stored = found
            \<or> (\<exists>b0 b1. found = Some b0 \<and> stored = Some b1
                  \<and> (userId = customer b0 \<or> userId = provider b0)
                  \<and> status b0 \<in> {''pending'', ''confirmed''} \<and> status b1 = ''cancelled''))"
proof (intro conjI impI allI)
  assume a: allowed
  then have part: "userId = customer b \<or> userId = provider b"
    and valid: "booking_valid mem"
    by (simp_all add: allowed_def)
  have "put_status now userId body (b, userId = customer b, userId = provider b) =
           (case updateStatus now (sb_status body) userId
                   (or_empty (sb_reason body)) (or_empty (sb_notes body)) b of
              Inl e \<Rightarrow> Inl (errorHandler e)
            | Inr saved \<Rightarrow> Inr saved)"
    using a unfolding allowed_def by (intro put_status_passes) blast+
  with valid have "put_status_route now userId body (Some b) = Inr (run_hooks now mem)"
    by (simp add: put_status_route_participant [OF part] updateStatus_def booking_save_def
          mem_def)
  then show "\<exists>saved. put_status_route now userId body (Some b) = Inr saved
                      \<and> status saved = sb_status body"
    by (simp add: run_hooks_fields mem_def updateStatus_memory_fields)
next
  assume n: "\<not> allowed"
  show "\<exists>resp. put_status_route now userId body (Some b) = Inl resp
                     \<and> statusCode resp \<in> {400, 403, 500}"
  proof (cases "userId = customer b \<or> userId = provider b")
    case False
    then show ?thesis by (simp add: put_status_route_stranger)
  next
    case part: True
    show ?thesis
    proof (cases "status_body_valid body
       \<and> (status b, sb_status body) \<in>
           {(''pending'', ''confirmed''), (''pending'', ''cancelled''),
            (''confirmed'', ''in_progress''), (''confirmed'', ''cancelled''),
            (''confirmed'', ''no_show''),
            (''in_progress'', ''completed''), (''in_progress'', ''cancelled'')}
       \<and> (sb_status body \<in> {''confirmed'', ''completed''} \<longrightarrow> userId = provider b)")
      case False
      then show ?thesis
        unfolding put_status_route_participant [OF part] by (rule put_status_refused)
    next
      case True
      with n part have bad: "\<not> booking_valid mem" unfolding allowed_def by blast
      have "put_status now userId body (b, userId = customer b, userId = provider b) =
           (case updateStatus now (sb_status body) userId
                   (or_empty (sb_reason body)) (or_empty (sb_notes body)) b of
              Inl e \<Rightarrow> Inl (errorHandler e)
            | Inr saved \<Rightarrow> Inr saved)"
        using True by (intro put_status_passes) blast+
      with bad show ?thesis
        by (simp add: put_status_route_participant [OF part] updateStatus_def booking_save_def
              mem_def)
    qed
  qed
next
  show "\<exists>resp. put_status_route now userId body None = Inl resp \<and> statusCode resp = 404"
    by (simp add: put_status_route_missing)
next
  let ?cancel = "\<lparr>sb_status = ''cancelled'', sb_reason = Some reason, sb_notes = None\<rparr>"
  assume h: "(userId = customer b \<or> userId = provider b)
            \<and> status b \<in> {''pending'', ''confirmed'', ''in_progress''}
            \<and> booking_valid b \<and> reason \<in> set cancellation_reasons"
  then have part: "userId = customer b \<or> userId = provider b" by simp
  have bv: "status_body_valid ?cancel"
    using h cancellation_reasons_short [of reason] by (simp add: status_body_valid_def)
  have vm: "booking_valid (updateStatus_memory now ''cancelled'' userId reason [] b)"
    using h by (intro booking_valid_memory) (simp_all add: booking_statuses_def)
  have "put_status now userId ?cancel (b, userId = customer b, userId = provider b) =
           (case updateStatus now (sb_status ?cancel) userId
                   (or_empty (sb_reason ?cancel)) (or_empty (sb_notes ?cancel)) b of
              Inl e \<Rightarrow> Inl (errorHandler e)
            | Inr saved \<Rightarrow> Inr saved)"
    using h by (intro put_status_passes bv) auto
  with vm have "put_status_route now userId ?cancel (Some b)
                  = Inr (run_hooks now (updateStatus_memory now ''cancelled'' userId reason [] b))"
    by (simp add: put_status_route_participant [OF part] updateStatus_def booking_save_def
          or_empty_def)
  then show "\<exists>saved. put_status_route now userId ?cancel (Some b) = Inr saved
                      \<and> status saved = ''cancelled''"
    by (simp add: run_hooks_fields updateStatus_memory_fields)
next
  fix found result stored
  assume "delete_route now userId reason found = (result, stored)"
  then show "stored = found
            \<or> (\<exists>b0 b1. found = Some b0 \<and> stored = Some b1
                  \<and> (userId = customer b0 \<or> userId = provider b0)
                  \<and> status b0 \<in> {''pending'', ''confirmed''} \<and> status b1 = ''cancelled'')"
    by (rule delete_route_stored)
qed

text \<open>
  On the pending sample booking of the customer alice with the provider bob: alice cancels
  with the reason \<open>other\<close> and bob confirms; alice's request to start the service is
  answered 400, her request to confirm 403, her cancellation without a reason 400, and a
  request of a third user 403.
\<close>

theorem status_routes_respect_transitions_witness:
  "(\<exists>saved. put_status_route 5 ''alice''
            \<lparr>sb_status = ''cancelled'', sb_reason = Some ''other'', sb_notes = None\<rparr>
            (Some sample_booking) = Inr saved \<and> status saved = ''cancelled'')
   \<and> (\<exists>saved. put_status_route 5 ''bob''
            \<lparr>sb_status = ''confirmed'', sb_reason = None, sb_notes = None\<rparr>
            (Some sample_booking) = Inr saved \<and> status saved = ''confirmed'')
   \<and> put_status_route 5 ''alice''
        \<lparr>sb_status = ''in_progress'', sb_reason = None, sb_notes = None\<rparr> (Some sample_booking)
      = Inl (reject 400 ''Cannot change status from pending to in_progress'')
   \<and> put_status_route 5 ''alice''
        \<lparr>sb_status = ''confirmed'', sb_reason = None, sb_notes = None\<rparr> (Some sample_booking)
      = Inl (reject 403 ''Only service provider can confirm bookings'')
   \<and> put_status_route 5 ''alice''
        \<lparr>sb_status = ''cancelled'', sb_reason = None, sb_notes = None\<rparr> (Some sample_booking)
      = Inl \<lparr>statusCode = 400, message = [Lit ''Validation Error''],
             errorType = Some ''ValidationError''\<rparr>
   \<and> (\<exists>resp. put_status_route 5 ''carol''
            \<lparr>sb_status = ''cancelled'', sb_reason = Some ''other'', sb_notes = None\<rparr>
            (Some sample_booking) = Inl resp \<and> statusCode resp \<in> {400, 403, 500})"
proof -
  let ?cancel = "\<lparr>sb_status = ''cancelled'', sb_reason = Some ''other'', sb_notes = None\<rparr>"
  let ?confirm = "\<lparr>sb_status = ''confirmed'', sb_reason = None, sb_notes = None\<rparr>"
  have vc: "booking_valid (updateStatus_memory 5 ''confirmed'' ''bob'' [] [] sample_booking)"
    using sample_booking_valid
    by (intro booking_valid_memory) (simp_all add: booking_statuses_def)
  have c1: "\<exists>saved. put_status_route 5 ''alice'' ?cancel (Some sample_booking) = Inr saved
                  \<and> status saved = ''cancelled''"
    by (rule status_routes_respect_transitions
              [where userId = "''alice''" and b = sample_booking and reason = "''other''"
                 and now = 5 and body = ?confirm,
               THEN conjunct2, THEN conjunct2, THEN conjunct2, THEN conjunct1, THEN mp])
       (simp add: sample_booking_valid cancellation_reasons_def, simp add: sample_booking_def)
  have c2: "\<exists>saved. put_status_route 5 ''bob'' ?confirm (Some sample_booking) = Inr saved
                  \<and> status saved = sb_status ?confirm"
    by (rule status_routes_respect_transitions
              [where userId = "''bob''" and b = sample_booking and reason = "''other''"
                 and now = 5 and body = ?confirm, THEN conjunct1, THEN mp])
       (simp add: status_body_valid_def or_empty_def vc, simp add: sample_booking_def)
  have c3: "put_status_route 5 ''alice''
        \<lparr>sb_status = ''in_progress'', sb_reason = None, sb_notes = None\<rparr> (Some sample_booking)
      = Inl (reject 400 ''Cannot change status from pending to in_progress'')"
    by (simp add: put_status_route_def bookingParticipant_def put_status_def
          status_body_valid_def validTransitions_def sample_booking_def)
  have c4: "put_status_route 5 ''alice'' ?confirm (Some sample_booking)
      = Inl (reject 403 ''Only service provider can confirm bookings'')"
    by (simp add: put_status_route_def bookingParticipant_def put_status_def
          status_body_valid_def validTransitions_def sample_booking_def)
  have bad: "\<not> booking_valid (updateStatus_memory 5 ''cancelled'' ''alice'' [] [] sample_booking)"
    by (simp add: booking_valid_def updateStatus_memory_fields optional_enum_def
          cancellation_reasons_def sample_booking_def)
  have c5: "put_status_route 5 ''alice''
        \<lparr>sb_status = ''cancelled'', sb_reason = None, sb_notes = None\<rparr> (Some sample_booking)
      = Inl \<lparr>statusCode = 400, message = [Lit ''Validation Error''],
             errorType = Some ''ValidationError''\<rparr>"
    using bad
    by (simp add: put_status_route_def bookingParticipant_def put_status_def
          status_body_valid_def validTransitions_def updateStatus_def booking_save_def
          or_empty_def)
       (simp add: sample_booking_def)
  have c6: "\<exists>resp. put_status_route 5 ''carol'' ?cancel (Some sample_booking) = Inl resp
                  \<and> statusCode resp \<in> {400, 403, 500}"
    by (rule status_routes_respect_transitions
              [where userId = "''carol''" and b = sample_booking and reason = "''other''"
                 and now = 5 and body = ?cancel,
               THEN conjunct2, THEN conjunct1, THEN mp])
       (simp add: sample_booking_def)
  from c1 c2 c3 c4 c5 c6 show ?thesis by simp
qed

section \<open>Results: booking one's own service\<close>





section \<open>Results: likes of a community post\<close>











section \<open>Results: the password of a user\<close>

text \<open>
  Claim C9. The object \<open>toJSON\<close> gives for a user document has no property \<open>password\<close>,
  whatever paths the document was loaded with; and the projection of a stored user by a
  query that selects nothing has no path \<open>password\<close>.
\<close>

theorem password_never_serialized:
  "''password'' \<notin> fst ` set (toJSON this)
   \<and> ''password'' \<notin> fst ` set (default_projection stored)
   \<and> ''password'' \<notin> fst ` set (toJSON (default_projection stored))"
  by (auto simp add: toJSON_def js_delete_def default_projection_def userSchema_unselected_def)

text \<open>The sample user is stored with a password hash.\<close>

theorem password_never_serialized_witness:
  "''password'' \<in> fst ` set sample_user
   \<and> ''password'' \<notin> fst ` set (toJSON sample_user)
   \<and> ''password'' \<notin> fst ` set (default_projection sample_user)"
  using password_never_serialized [of sample_user sample_user]
  by (simp add: sample_user_def)

section \<open>Results: reviews of a booking\<close>

text \<open>
  Claim C4. One review of each direction is said to be possible for a booking. The unique
  index is on the booking alone: once the collection holds a review of a booking, every
  further request to review that booking, whatever its direction, is answered with an
  error and adds nothing.
\<close>

theorem second_review_of_booking_rejected:
  assumes "rb_booking body \<in> set (map rv_booking reviews)"
  shows "\<exists>resp. post_review newId userId body bookings reviews = (Inl resp, reviews)
           \<and> statusCode resp \<in> {400, 403, 404}"
proof (cases "find (\<lambda>b. b_id b = rb_booking body) bookings")
  case None
  then show ?thesis by (simp add: post_review_def reject_def)
next
  case (Some b)
  show ?thesis
    using Some assms
    by (simp add: post_review_def reject_def Let_def Review_create_def)
qed

text \<open>
  The customer of the completed sample booking reviews the provider, and the review is
  stored. The provider then reviews the customer: the insertion fails on the unique index,
  and the error handler answers 400 with the duplicate-key message.
\<close>

theorem second_review_of_booking_rejected_witness:
  "post_review ''r1'' ''alice''
     \<lparr>rb_valid = True, rb_booking = ''b1'', rb_rating = Num 5,
      rb_reviewType = ''customer_to_provider''\<rparr>
     [sample_booking\<lparr>status := ''completed''\<rparr>] []
   = (Inr sample_review, [sample_review])
   \<and> (\<exists>resp. post_review ''r2'' ''bob''
         \<lparr>rb_valid = True, rb_booking = ''b1'', rb_rating = Num 4,
          rb_reviewType = ''provider_to_customer''\<rparr>
         [sample_booking\<lparr>status := ''completed''\<rparr>] [sample_review]
       = (Inl resp, [sample_review]) \<and> statusCode resp \<in> {400, 403, 404})
   \<and> post_review ''r2'' ''bob''
         \<lparr>rb_valid = True, rb_booking = ''b1'', rb_rating = Num 4,
          rb_reviewType = ''provider_to_customer''\<rparr>
         [sample_booking\<lparr>status := ''completed''\<rparr>] [sample_review]
       = (Inl (errorHandler (DuplicateKey ''booking'' ''b1'')), [sample_review])"
proof -
  let ?body = "\<lparr>rb_valid = True, rb_booking = ''b1'', rb_rating = Num 4,
          rb_reviewType = ''provider_to_customer''\<rparr>"
  have m: "rb_booking ?body \<in> set (map rv_booking [sample_review])"
    by (simp add: sample_review_def)
  have first: "post_review ''r1'' ''alice''
     \<lparr>rb_valid = True, rb_booking = ''b1'', rb_rating = Num 5,
      rb_reviewType = ''customer_to_provider''\<rparr>
     [sample_booking\<lparr>status := ''completed''\<rparr>] []
   = (Inr sample_review, [sample_review])"
    by (simp add: post_review_def sample_booking_def sample_review_def Review_create_def Let_def)
  have second: "post_review ''r2'' ''bob'' ?body
         [sample_booking\<lparr>status := ''completed''\<rparr>] [sample_review]
       = (Inl (errorHandler (DuplicateKey ''booking'' ''b1'')), [sample_review])"
    by (simp add: post_review_def sample_booking_def sample_review_def Review_create_def)
  from first second
    second_review_of_booking_rejected [OF m, of "''r2''" "''bob''"
      "[sample_booking\<lparr>status := ''completed''\<rparr>]"]
  show ?thesis by blast
qed

lemma duplicate_booking_response:
  "errorHandler (DuplicateKey ''booking'' ''b1'') =
     \<lparr>statusCode = 400,
      message = [Lit (''Booking '' @ [CHR 0x27] @ ''b1'' @ [CHR 0x27] @ '' already exists'')],
      errorType = Some ''DuplicateError''\<rparr>"
  by code_simp

end
